theory Spec2Isabelle
  imports Complex_Main
begin

section \<open>Veritium web client: data model\<close>

text \<open>
  The client is a React application. Its strings are JavaScript strings; here a string
  is a list of code units below 256 (HOL characters). Numbers that carry a score are
  JavaScript numbers; here they are reals, and the literals \<open>0.7\<close> and \<open>0.4\<close> of
  the source are the decimal fractions they denote. An optional field (\<open>share_id?\<close>)
  is an \<open>option\<close>.
\<close>

text \<open>
  \<^verbatim>\<open>types/index.ts\<close>. A field whose name is a keyword or a constant of HOL, or
  that two interfaces share, carries a prefix here: \<open>EvidenceSnippet.text\<close> is
  \<open>snippet_text\<close>, \<open>Assessment.id\<close> is \<open>assessment_id\<close>, the fields of
  \<open>Citation\<close> and \<open>Document\<close> that clash start with \<open>citation_\<close> and
  \<open>doc_\<close>.
\<close>

record EvidenceSnippet =
  snippet_text :: string
  similarity :: real
  sentence_index :: nat
  word_count :: nat

record Citation =
  citation_id :: string
  citation_text :: string
  citation_similarity_score :: real
  document_title :: string
  citation_document_id :: nat
  snippet_index :: nat
  citation_doi :: "string option"
  citation_url :: "string option"

text \<open>The union type of \<open>Assessment.stance\<close> and the string each member is at run
  time.\<close>

datatype stance = Supports | Contradicts | Neutral

fun stance_value :: "stance \<Rightarrow> string" where
  "stance_value Supports = ''supports''"
| "stance_value Contradicts = ''contradicts''"
| "stance_value Neutral = ''neutral''"

record Assessment =
  assessment_id :: nat
  document_id :: nat
  user_claim :: string
  similarity_score :: real
  stance :: stance
  entailment_score :: real
  method_quality_score :: real
  evidence_strength_score :: real
  confidence_score :: real
  explanation :: string
  evidence_snippets :: "EvidenceSnippet list"
  citations :: "Citation list"
  share_id :: "string option"
  created_at :: string

record Document =
  doc_id :: nat
  title :: string
  authors :: "string list"
  abstract :: string
  doi :: "string option"
  url :: "string option"
  doc_file_type :: string
  extracted_claims :: "string list"
  doc_confidence_score :: real
  doc_method_quality_score :: real
  doc_created_at :: string

text \<open>A browser \<open>File\<close>: its name, its MIME type (\<open>file.type\<close>) and its size in
  bytes (\<open>file.size\<close>).\<close>

record File =
  file_name :: string
  file_type :: string
  file_size :: nat

section \<open>JavaScript strings and the two regular expressions of DoiInput\<close>

text \<open>
  \<open>String.prototype.trim\<close> removes white space and line terminators from both ends.
  Among the code units below 256 these are TAB, LF, VT, FF, CR, SPACE and NBSP.
\<close>

definition isLineTerminator :: "char \<Rightarrow> bool" where
  "isLineTerminator c \<longleftrightarrow> c = CHR 0x0A \<or> c = CHR 0x0D"

definition isWhiteSpace :: "char \<Rightarrow> bool" where
  "isWhiteSpace c \<longleftrightarrow>
     c = CHR 0x09 \<or> c = CHR 0x0B \<or> c = CHR 0x0C \<or> c = CHR 0x20 \<or> c = CHR 0xA0 \<or>
     isLineTerminator c"

definition trim :: "string \<Rightarrow> string" where
  "trim s = rev (dropWhile isWhiteSpace (rev (dropWhile isWhiteSpace s)))"

text \<open>
  The regular expressions of the source use literal text, the optional group \<open>(r)?\<close>,
  sequence, and \<open>.+\<close> (one or more code units that are not line terminators); both
  start with \<open>^\<close> and have no flags, so a match starts at position 0. \<open>rx_match r s\<close>
  lists what is left of \<open>s\<close> after each way \<open>r\<close> matches a prefix of it, in the order
  in which a backtracking matcher tries them: an optional group is tried present first,
  \<open>.+\<close> longest first.
\<close>

datatype rx = Str string | Opt rx | Seq rx rx | DotPlus

fun rx_match :: "rx \<Rightarrow> string \<Rightarrow> string list" where
  "rx_match (Str p) s = (if take (length p) s = p then [drop (length p) s] else [])"
| "rx_match (Opt r) s = rx_match r s @ [s]"
| "rx_match (Seq r1 r2) s = concat (map (rx_match r2) (rx_match r1 s))"
| "rx_match DotPlus s =
     map (\<lambda>n. drop n s)
       (rev [1 ..< Suc (length (takeWhile (\<lambda>c. \<not> isLineTerminator c) s))])"

text \<open>\<open>r.test(s)\<close> for an anchored \<open>r\<close>.\<close>

definition rx_test :: "rx \<Rightarrow> string \<Rightarrow> bool" where
  "rx_test r s \<longleftrightarrow> rx_match r s \<noteq> []"

text \<open>\<open>s.replace(r, '')\<close> for an anchored \<open>r\<close> without the \<open>g\<close> flag: the first
  match is removed, and a string without a match is returned as it is.\<close>

definition rx_replace_empty :: "rx \<Rightarrow> string \<Rightarrow> string" where
  "rx_replace_empty r s = (case rx_match r s of [] \<Rightarrow> s | rest # _ \<Rightarrow> rest)"

text \<open>\<^verbatim>\<open>/^10\..+\/.+/\<close>\<close>

definition doiPattern :: rx where
  "doiPattern = Seq (Str ''10.'') (Seq DotPlus (Seq (Str ''/'') DotPlus))"

text \<open>\<^verbatim>\<open>/^(https?:\/\/)?(dx\.)?doi\.org\//\<close>\<close>

definition doiPrefix :: rx where
  "doiPrefix =
     Seq (Opt (Seq (Str ''http'') (Seq (Opt (Str ''s'')) (Str ''://''))))
       (Seq (Opt (Str ''dx.'')) (Str ''doi.org/''))"

text \<open>The six texts that \<open>doiPrefix\<close> can match (lemma \<open>doiPrefix_iff\<close> below).\<close>

definition doiPrefixes :: "string list" where
  "doiPrefixes = [''https://dx.doi.org/'', ''https://doi.org/'', ''http://dx.doi.org/'',
     ''http://doi.org/'', ''dx.doi.org/'', ''doi.org/'']"

section \<open>services/api.ts\<close>

text \<open>
  Each method of \<open>documentApi\<close> and \<open>assessmentApi\<close> sends one HTTP request; a
  request is named by its method and path and carries the fields of its body:
  \<^item> \<open>uploadFile\<close>, \<open>uploadFromUrl\<close>, \<open>uploadFromDoi\<close>: POST /documents/upload with the
    form field \<open>file\<close>, \<open>url\<close> or \<open>doi\<close>;
  \<^item> \<open>createAssessment\<close>: POST /assessments/ with \<open>document_id\<close> and \<open>user_claim\<close>;
  \<^item> \<open>getAssessment\<close>: GET /assessments/{id};
    \<open>getSharedAssessment\<close>: GET /assessments/share/{shareId};
  \<^item> \<open>submitFeedback\<close>: POST /assessments/{assessmentId}/feedback with
    \<open>feedback_score\<close> and \<open>feedback_comment\<close>.
\<close>

datatype request =
    PostDocumentsUploadFile File
  | PostDocumentsUploadUrl string
  | PostDocumentsUploadDoi string
  | GetDocument nat
  | GetDocuments
  | PostAssessments nat string
  | GetAssessment nat
  | GetAssessmentShare string
  | PostAssessmentFeedback nat int "string option"

definition uploadFile :: "File \<Rightarrow> request" where
  "uploadFile file = PostDocumentsUploadFile file"

definition uploadFromUrl :: "string \<Rightarrow> request" where
  "uploadFromUrl u = PostDocumentsUploadUrl u"

definition uploadFromDoi :: "string \<Rightarrow> request" where
  "uploadFromDoi d = PostDocumentsUploadDoi d"

definition createAssessment :: "nat \<Rightarrow> string \<Rightarrow> request" where
  "createAssessment documentId userClaim = PostAssessments documentId userClaim"

definition getAssessment :: "nat \<Rightarrow> request" where
  "getAssessment i = GetAssessment i"

definition getSharedAssessment :: "string \<Rightarrow> request" where
  "getSharedAssessment shareId = GetAssessmentShare shareId"

definition submitFeedback :: "nat \<Rightarrow> int \<Rightarrow> string option \<Rightarrow> request" where
  "submitFeedback assessmentId feedbackScore comment =
     PostAssessmentFeedback assessmentId feedbackScore comment"

section \<open>Handlers and what they do\<close>

text \<open>
  A handler is modelled by the list of the things it does, in order: the requests it
  sends, the callbacks and state setters it calls, the toasts it shows, what it writes to
  the clipboard. A handler that awaits a request takes the outcome of the request as an
  argument: the promise resolves with a value, or rejects with an error whose
  \<open>error.response?.data?.detail\<close> may be missing.
\<close>

datatype 'a outcome = Resolved 'a | Rejected "string option"

datatype effect =
    Request request
  | OnUpload Document
  | OnError string
  | SetIsLoading bool
  | SetDoi string
  | ToastSuccess string
  | ToastError string
  | Navigate nat
  | ClipboardWriteText string
  | ExecCommandCopy string

text \<open>\<^verbatim>\<open>error.response?.data?.detail || fallback\<close>: a missing or empty detail gives the
  fallback.\<close>

definition errorMessage :: "string option \<Rightarrow> string \<Rightarrow> string" where
  "errorMessage detail fallback =
     (case detail of None \<Rightarrow> fallback | Some d \<Rightarrow> if d = [] then fallback else d)"

subsection \<open>FileUpload.tsx\<close>

definition allowedTypes :: "string list" where
  "allowedTypes =
     [''application/pdf'',
      ''application/vnd.openxmlformats-officedocument.wordprocessingml.document'']"

text \<open>\<open>onDrop\<close> looks at \<open>acceptedFiles[0]\<close> only (the dropzone has
  \<open>multiple: false\<close>) and returns at once when there is none.\<close>

definition onDrop :: "Document outcome \<Rightarrow> File list \<Rightarrow> effect list" where
  "onDrop result acceptedFiles =
     (case acceptedFiles of
        [] \<Rightarrow> []
      | file # _ \<Rightarrow>
          if file_type file \<notin> set allowedTypes
          then [OnError ''Please upload a PDF or DOCX file'']
          else if file_size file > 50 * 1024 * 1024
          then [OnError ''File size must be less than 50MB'']
          else [SetIsLoading True, Request (uploadFile file)] @
               (case result of
                  Resolved document \<Rightarrow> [OnUpload document]
                | Rejected detail \<Rightarrow> [OnError (errorMessage detail ''Failed to upload file'')]) @
               [SetIsLoading False])"

subsection \<open>DoiInput.tsx\<close>

definition cleanDoi :: "string \<Rightarrow> string" where
  "cleanDoi d = rx_replace_empty doiPrefix d"

definition DoiInput_handleSubmit :: "Document outcome \<Rightarrow> string \<Rightarrow> effect list" where
  "DoiInput_handleSubmit result d =
     (if trim d = [] then [OnError ''Please enter a DOI'']
      else if \<not> rx_test doiPattern (cleanDoi d)
      then [OnError ''Please enter a valid DOI (e.g., 10.1000/123456)'']
      else [SetIsLoading True, Request (uploadFromDoi (cleanDoi d))] @
           (case result of
              Resolved document \<Rightarrow> [OnUpload document, SetDoi []]
            | Rejected detail \<Rightarrow> [OnError (errorMessage detail ''Failed to fetch DOI'')]) @
           [SetIsLoading False])"

subsection \<open>ClaimInput.tsx and HomePage.tsx\<close>

text \<open>\<open>ClaimInput\<close> calls its \<open>onSubmit\<close> property; \<open>HomePage\<close> passes
  \<open>handleClaimSubmit\<close> for it. The Analyze button is disabled while loading and while the
  trimmed claim is empty.\<close>

definition ClaimInput_handleSubmit :: "(string \<Rightarrow> effect list) \<Rightarrow> string \<Rightarrow> effect list" where
  "ClaimInput_handleSubmit onSubmit claim =
     (if trim claim = [] then [] else onSubmit (trim claim))"

definition ClaimInput_disabled :: "bool \<Rightarrow> string \<Rightarrow> bool" where
  "ClaimInput_disabled isLoading claim \<longleftrightarrow> isLoading \<or> trim claim = []"

definition handleError :: "string \<Rightarrow> effect list" where
  "handleError e = [ToastError e, SetIsLoading False]"

definition handleClaimSubmit ::
  "Assessment outcome \<Rightarrow> Document option \<Rightarrow> string \<Rightarrow> effect list" where
  "handleClaimSubmit result document claim =
     (case document of
        None \<Rightarrow> [ToastError ''Please upload a document first'']
      | Some d \<Rightarrow>
          [SetIsLoading True, Request (createAssessment (doc_id d) claim)] @
          (case result of
             Resolved a \<Rightarrow> [Navigate (assessment_id a)]
           | Rejected detail \<Rightarrow> handleError (errorMessage detail ''Failed to create assessment'')))"

text \<open>Submitting the claim form of the home page.\<close>

definition submitClaimForm ::
  "Assessment outcome \<Rightarrow> Document option \<Rightarrow> string \<Rightarrow> effect list" where
  "submitClaimForm result document claim =
     ClaimInput_handleSubmit (handleClaimSubmit result document) claim"

subsection \<open>AssessmentPage.tsx\<close>

text \<open>
  The state of the page. \<open>origin\<close> is \<open>window.location.origin\<close>. A click is handled to
  its end before the next one: while a feedback request is pending the two feedback
  buttons are disabled, and \<open>handleShare\<close> neither reads nor writes what
  \<open>handleFeedback\<close> writes.
\<close>

record page_state =
  assessment :: "Assessment option"
  isLoading :: bool
  feedback :: "int option"
  feedbackComment :: string
  isSubmittingFeedback :: bool

text \<open>
  \<open>handleShare\<close> returns at once when \<open>assessment?.share_id\<close> is falsy: no assessment,
  no share id, or an empty one. Otherwise it writes the share link to the clipboard; the
  argument says whether \<open>navigator.clipboard.writeText\<close> resolves, and when it does
  not, the link is copied through a temporary text area.
\<close>

definition handleShare :: "string \<Rightarrow> bool \<Rightarrow> page_state \<Rightarrow> effect list" where
  "handleShare origin clipboardResolves st =
     (case assessment st of
        None \<Rightarrow> []
      | Some a \<Rightarrow>
          (case share_id a of
             None \<Rightarrow> []
           | Some sid \<Rightarrow>
               if sid = [] then []
               else let shareUrl = origin @ ''/share/'' @ sid in
                 if clipboardResolves
                 then [ClipboardWriteText shareUrl,
                       ToastSuccess ''Share link copied to clipboard!'']
                 else [ExecCommandCopy shareUrl,
                       ToastSuccess ''Share link copied to clipboard!'']))"

text \<open>\<open>feedbackComment || undefined\<close>\<close>

definition commentOrUndefined :: "string \<Rightarrow> string option" where
  "commentOrUndefined c = (if c = [] then None else Some c)"

definition handleFeedback ::
  "unit outcome \<Rightarrow> page_state \<Rightarrow> int \<Rightarrow> effect list \<times> page_state" where
  "handleFeedback result st score =
     (case assessment st of
        None \<Rightarrow> ([], st)
      | Some a \<Rightarrow>
          (case result of
             Resolved _ \<Rightarrow>
               ([Request (submitFeedback (assessment_id a) score
                            (commentOrUndefined (feedbackComment st))),
                 ToastSuccess ''Thank you for your feedback!''],
                st\<lparr>feedback := Some score, isSubmittingFeedback := False\<rparr>)
           | Rejected detail \<Rightarrow>
               ([Request (submitFeedback (assessment_id a) score
                            (commentOrUndefined (feedbackComment st))),
                 ToastError (errorMessage detail ''Failed to submit feedback'')],
                st\<lparr>isSubmittingFeedback := False\<rparr>)))"

text \<open>
  What the page renders decides what can be clicked: nothing while loading or without an
  assessment; the Share button otherwise; the Helpful and Not Helpful buttons and the
  comment box only while no feedback has been given, the buttons enabled only while no
  feedback request is pending.
\<close>

datatype page_event =
    ShareClicked string bool
  | HelpfulClicked "unit outcome"
  | NotHelpfulClicked "unit outcome"
  | CommentChanged string

definition pageShown :: "page_state \<Rightarrow> bool" where
  "pageShown st \<longleftrightarrow> \<not> isLoading st \<and> assessment st \<noteq> None"

definition feedbackEnabled :: "page_state \<Rightarrow> bool" where
  "feedbackEnabled st \<longleftrightarrow> pageShown st \<and> feedback st = None \<and> \<not> isSubmittingFeedback st"

fun page_step :: "page_state \<Rightarrow> page_event \<Rightarrow> effect list \<times> page_state" where
  "page_step st (ShareClicked origin ok) =
     (if pageShown st then (handleShare origin ok st, st) else ([], st))"
| "page_step st (HelpfulClicked result) =
     (if feedbackEnabled st then handleFeedback result st 1 else ([], st))"
| "page_step st (NotHelpfulClicked result) =
     (if feedbackEnabled st then handleFeedback result st (- 1) else ([], st))"
| "page_step st (CommentChanged c) =
     (if pageShown st \<and> feedback st = None \<and> \<not> isSubmittingFeedback st
      then ([], st\<lparr>feedbackComment := c\<rparr>) else ([], st))"

text \<open>Everything the page does over a sequence of events.\<close>

fun page_run :: "page_state \<Rightarrow> page_event list \<Rightarrow> effect list" where
  "page_run st [] = []"
| "page_run st (e # es) = fst (page_step st e) @ page_run (snd (page_step st e)) es"

section \<open>ScoreDisplay.tsx and EvidenceSnippets.tsx: tiers and stance\<close>

text \<open>\<open>formatPercentage\<close> is \<^verbatim>\<open>Math.round(score * 100)\<close>: the nearest integer,
  a half rounded up.\<close>

definition formatPercentage :: "real \<Rightarrow> int" where
  "formatPercentage score = \<lfloor>score * 100 + 1 / 2\<rfloor>"

text \<open>
  \<open>ScoreBar\<close> colours its bar with
  \<^verbatim>\<open>score >= 0.7 ? 'bg-green-500' : score >= 0.4 ? 'bg-yellow-500' : 'bg-red-500'\<close>.
\<close>

definition ScoreBar_color :: "real \<Rightarrow> string" where
  "ScoreBar_color score =
     (if score \<ge> 0.7 then ''bg-green-500''
      else if score \<ge> 0.4 then ''bg-yellow-500'' else ''bg-red-500'')"

definition ScoreBar_className :: "real \<Rightarrow> string" where
  "ScoreBar_className score =
     ''h-2 rounded-full transition-all duration-300 '' @ ScoreBar_color score"

text \<open>
  \<open>EvidenceSnippets\<close> colours the similarity label of a snippet with
  \<^verbatim>\<open>snippet.similarity >= 0.7 ? 'text-green-600' : snippet.similarity >= 0.4 ? 'text-yellow-600' : 'text-red-600'\<close>.
\<close>

definition EvidenceSnippets_color :: "EvidenceSnippet \<Rightarrow> string" where
  "EvidenceSnippets_color snippet =
     (if similarity snippet \<ge> 0.7 then ''text-green-600''
      else if similarity snippet \<ge> 0.4 then ''text-yellow-600'' else ''text-red-600'')"

definition EvidenceSnippets_className :: "EvidenceSnippet \<Rightarrow> string" where
  "EvidenceSnippets_className snippet = ''font-semibold '' @ EvidenceSnippets_color snippet"

text \<open>
  The "Score Interpretation" legend of \<open>ScoreDisplay\<close> names the three colours: the
  green dot is "High", the yellow dot "Medium", the red dot "Low". The snippet labels use
  the same three colours as text colours.
\<close>

datatype tier = High | Medium | Low

definition scoreInterpretation :: "(string \<times> tier) list" where
  "scoreInterpretation =
     [(''bg-green-500'', High), (''bg-yellow-500'', Medium), (''bg-red-500'', Low)]"

definition snippetInterpretation :: "(string \<times> tier) list" where
  "snippetInterpretation =
     [(''text-green-600'', High), (''text-yellow-600'', Medium), (''text-red-600'', Low)]"

definition ScoreBar_tier :: "real \<Rightarrow> tier option" where
  "ScoreBar_tier score = map_of scoreInterpretation (ScoreBar_color score)"

definition EvidenceSnippets_tier :: "EvidenceSnippet \<Rightarrow> tier option" where
  "EvidenceSnippets_tier snippet = map_of snippetInterpretation (EvidenceSnippets_color snippet)"

text \<open>
  \<open>EvidenceSnippets\<close> renders one row for each snippet, in the order of the list it is
  given, numbered from 1 (\<open>Evidence #{index + 1}\<close>).
\<close>

definition EvidenceSnippets_rows :: "EvidenceSnippet list \<Rightarrow> (nat \<times> EvidenceSnippet) list" where
  "EvidenceSnippets_rows snippets = zip [1 ..< Suc (length snippets)] snippets"

text \<open>
  \<open>getStanceIcon\<close> and \<open>getStanceColor\<close> switch on the stance string, with a
  \<open>default\<close> branch; the sentence under the stance is chosen by two comparisons.
\<close>

datatype icon = CheckCircleIcon | XCircleIcon | MinusCircleIcon

definition getStanceIcon :: "string \<Rightarrow> icon \<times> string" where
  "getStanceIcon st =
     (if st = ''supports'' then (CheckCircleIcon, ''h-6 w-6 text-green-500'')
      else if st = ''contradicts'' then (XCircleIcon, ''h-6 w-6 text-red-500'')
      else (MinusCircleIcon, ''h-6 w-6 text-gray-500''))"

definition getStanceColor :: "string \<Rightarrow> string" where
  "getStanceColor st =
     (if st = ''supports'' then ''text-green-700 bg-green-50 border-green-200''
      else if st = ''contradicts'' then ''text-red-700 bg-red-50 border-red-200''
      else ''text-gray-700 bg-gray-50 border-gray-200'')"

definition stanceSentence :: "string \<Rightarrow> string" where
  "stanceSentence st =
     ''The document '' @
     (if st = ''supports'' then ''supports''
      else if st = ''contradicts'' then ''contradicts'' else ''is neutral about'') @
     '' your claim''"

section \<open>Backend operations the client relies on\<close>

text \<open>
  The assessment engine runs on the server; the client sources hold none of it. The
  three operations below are written from the specification of the engine.
\<close>

subsection \<open>Share identifiers\<close>

datatype api_error = AssessmentNotFound

type_synonym assessment_store = "nat \<rightharpoonup> Assessment"

text \<open>
  Modelled from the spec: \<open>ensureShareId(assessmentId) -> shareId\<close>, an operation of
  the server that is not part of the client sources. The store maps an assessment
  identity to the stored assessment; the share identifier is "generated lazily on first
  share request, stable thereafter", and the operation "returns existing id if already
  generated". An unknown assessment is the \<open>NotFound\<close> error. \<open>generate\<close> stands for
  the generator of fresh identifiers, which the specification leaves open.
\<close>

definition ensureShareId ::
  "(assessment_store \<Rightarrow> nat \<Rightarrow> string) \<Rightarrow> assessment_store \<Rightarrow> nat \<Rightarrow>
     api_error + (string \<times> assessment_store)" where
  "ensureShareId generate store assessmentId =
     (case store assessmentId of
        None \<Rightarrow> Inl AssessmentNotFound
      | Some a \<Rightarrow>
          (case share_id a of
             Some sid \<Rightarrow> Inr (sid, store)
           | None \<Rightarrow>
               let sid = generate store assessmentId
               in Inr (sid, store(assessmentId \<mapsto> a\<lparr>share_id := Some sid\<rparr>))))"

subsection \<open>Confidence fusion\<close>

text \<open>
  Confidence Fusion is a stage of the server's assessment engine and is not part of the
  client sources. The specification: "confidence_score = weighted sum of the four inputs
  (default weights: similarity 0.25, entailment 0.35, quality 0.20, evidence_strength
  0.20; configurable, must sum to 1.0), clamped to [0,1]". Scores and weights are reals;
  the rounding of floating-point arithmetic is not modelled.
\<close>

record fusion_weights =
  w_similarity :: real
  w_entailment :: real
  w_quality :: real
  w_evidence_strength :: real

text \<open>Modelled from the spec: the default weights of Confidence Fusion (server code,
  not in the client sources).\<close>

definition default_weights :: fusion_weights where
  "default_weights =
     \<lparr>w_similarity = 0.25, w_entailment = 0.35, w_quality = 0.20, w_evidence_strength = 0.20\<rparr>"

text \<open>Modelled from the spec: the "weighted sum of the four inputs" of Confidence Fusion
  (server code, not in the client sources).\<close>

definition weighted_sum :: "fusion_weights \<Rightarrow> real \<Rightarrow> real \<Rightarrow> real \<Rightarrow> real \<Rightarrow> real" where
  "weighted_sum w sim ent quality strength =
     w_similarity w * sim + w_entailment w * ent + w_quality w * quality +
     w_evidence_strength w * strength"

text \<open>Modelled from the spec: "clamped to [0,1]" (server code, not in the client
  sources).\<close>

definition clamp01 :: "real \<Rightarrow> real" where
  "clamp01 x = max 0 (min 1 x)"

text \<open>Modelled from the spec: the confidence score that Confidence Fusion computes
  (server code, not in the client sources).\<close>

definition confidence_fusion :: "fusion_weights \<Rightarrow> real \<Rightarrow> real \<Rightarrow> real \<Rightarrow> real \<Rightarrow> real" where
  "confidence_fusion w sim ent quality strength = clamp01 (weighted_sum w sim ent quality strength)"

text \<open>
  Modelled from the spec: the \<open>fused\<close> step of the Assessment Orchestrator (server code,
  not in the client sources), which stores the fused confidence in the assessment.
\<close>

definition fuse :: "fusion_weights \<Rightarrow> Assessment \<Rightarrow> Assessment" where
  "fuse w a =
     a\<lparr>confidence_score :=
         confidence_fusion w (similarity_score a) (entailment_score a)
           (method_quality_score a) (evidence_strength_score a)\<rparr>"

subsection \<open>Evidence retrieval\<close>

text \<open>
  The Evidence Retriever is a stage of the server's assessment engine and is not part of
  the client sources. The specification: its output is "the top-K (default K=5) sentences
  by similarity to the claim, descending, ties broken by lower sentence index"; "if the
  document has fewer than K qualifying sentences, return all of them; if similarity of
  the best match is below a configurable minimum threshold (default 0.2), the result set
  may be empty". A sentence unit has a "text, zero-based index, word count".
\<close>

record SentenceUnit =
  sentence_text :: string
  sentence_position :: nat
  sentence_words :: nat

text \<open>Modelled from the spec: "each result becomes an EvidenceSnippet" (server code, not
  in the client sources). \<open>sim\<close> is the similarity of a sentence to the claim, as the
  Embedding Service gives it.\<close>

definition toSnippet :: "(SentenceUnit \<Rightarrow> real) \<Rightarrow> SentenceUnit \<Rightarrow> EvidenceSnippet" where
  "toSnippet sim u =
     \<lparr>snippet_text = sentence_text u, similarity = sim u,
      sentence_index = sentence_position u, word_count = sentence_words u\<rparr>"

text \<open>Modelled from the spec: the order of the Evidence Retriever (server code, not in
  the client sources). \<open>x\<close> may stand before \<open>y\<close>: higher similarity, or the same
  similarity and no higher sentence index.\<close>

definition ranks_before :: "EvidenceSnippet \<Rightarrow> EvidenceSnippet \<Rightarrow> bool" where
  "ranks_before x y \<longleftrightarrow>
     similarity x > similarity y \<or>
     (similarity x = similarity y \<and> sentence_index x \<le> sentence_index y)"

text \<open>Modelled from the spec: ranking by that order, as an insertion sort (server code,
  not in the client sources).\<close>

fun insert_ranked :: "EvidenceSnippet \<Rightarrow> EvidenceSnippet list \<Rightarrow> EvidenceSnippet list" where
  "insert_ranked x [] = [x]"
| "insert_ranked x (y # ys) =
     (if ranks_before x y then x # y # ys else y # insert_ranked x ys)"

text \<open>Modelled from the spec: the ranking of all snippets (server code, not in the
  client sources).\<close>

fun rank_snippets :: "EvidenceSnippet list \<Rightarrow> EvidenceSnippet list" where
  "rank_snippets [] = []"
| "rank_snippets (x # xs) = insert_ranked x (rank_snippets xs)"

text \<open>Modelled from the spec: "default K=5" (server configuration, not in the client
  sources).\<close>

definition default_K :: nat where
  "default_K = 5"

text \<open>Modelled from the spec: the minimum threshold, "default 0.2" (server
  configuration, not in the client sources).\<close>

definition default_min_similarity :: real where
  "default_min_similarity = 0.2"

text \<open>Modelled from the spec: the Evidence Retriever (server code, not in the client
  sources): nothing when the best match is below the threshold, the first \<open>K\<close> of the
  ranking otherwise.\<close>

definition retrieveEvidence ::
  "nat \<Rightarrow> real \<Rightarrow> (SentenceUnit \<Rightarrow> real) \<Rightarrow> SentenceUnit list \<Rightarrow> EvidenceSnippet list" where
  "retrieveEvidence K minSimilarity sim sentences =
     (case rank_snippets (map (toSnippet sim) sentences) of
        [] \<Rightarrow> []
      | best # others \<Rightarrow>
          if similarity best < minSimilarity then [] else take K (best # others))"

section \<open>Sample values\<close>

definition sample_assessment :: Assessment where
  "sample_assessment =
     \<lparr>assessment_id = 7, document_id = 3, user_claim = ''Exercise reduces heart rate'',
      similarity_score = 0.8, stance = Supports, entailment_score = 0.6,
      method_quality_score = 0.5, evidence_strength_score = 0.7, confidence_score = 0.65,
      explanation = ''The document supports your claim.'', evidence_snippets = [],
      citations = [], share_id = None, created_at = ''2024-01-01T00:00:00''\<rparr>"

definition sample_page :: page_state where
  "sample_page =
     \<lparr>assessment = Some sample_assessment, isLoading = False, feedback = None,
      feedbackComment = [], isSubmittingFeedback = False\<rparr>"

definition sample_document :: Document where
  "sample_document =
     \<lparr>doc_id = 3, title = ''Exercise and heart rate'', authors = [''A. Author''],
      abstract = ''Exercise lowers resting heart rate.'', doi = None, url = None,
      doc_file_type = ''pdf'', extracted_claims = [], doc_confidence_score = 0.5,
      doc_method_quality_score = 0.5, doc_created_at = ''2024-01-01T00:00:00''\<rparr>"

definition sample_file :: File where
  "sample_file =
     \<lparr>file_name = ''paper.pdf'', file_type = ''application/pdf'', file_size = 1048576\<rparr>"

definition sample_sentences :: "SentenceUnit list" where
  "sample_sentences =
     [\<lparr>sentence_text = ''Exercise lowers resting heart rate.'', sentence_position = 0,
       sentence_words = 5\<rparr>,
      \<lparr>sentence_text = ''The control group showed no significant change.'',
       sentence_position = 1, sentence_words = 7\<rparr>,
      \<lparr>sentence_text = ''Sample size was 200 participants.'', sentence_position = 2,
       sentence_words = 5\<rparr>]"

text \<open>A similarity that puts the second sentence first and ties the other two.\<close>

definition sample_sim :: "SentenceUnit \<Rightarrow> real" where
  "sample_sim u = (if sentence_position u = 1 then 0.9 else 0.3)"

section \<open>Theorems\<close>

subsection \<open>Score tiers\<close>

lemma ScoreBar_tier_cases:
  "ScoreBar_tier s = Some (if s \<ge> 0.7 then High else if s \<ge> 0.4 then Medium else Low)"
  by (simp add: ScoreBar_tier_def ScoreBar_color_def scoreInterpretation_def)

lemma EvidenceSnippets_tier_cases:
  "EvidenceSnippets_tier sn =
     Some (if similarity sn \<ge> 0.7 then High else if similarity sn \<ge> 0.4 then Medium else Low)"
  by (simp add: EvidenceSnippets_tier_def EvidenceSnippets_color_def snippetInterpretation_def)

text \<open>
  C1. Every score bar and every snippet similarity label gets the tier high exactly when
  the score is at least 0.7, medium exactly when it is at least 0.4 and below 0.7, and
  low exactly when it is below 0.4; the bar and the label of the same score agree.
\<close>

theorem score_tier_bands:
  "(ScoreBar_tier s = Some High \<longleftrightarrow> s \<ge> 0.7) \<and>
   (ScoreBar_tier s = Some Medium \<longleftrightarrow> 0.4 \<le> s \<and> s < 0.7) \<and>
   (ScoreBar_tier s = Some Low \<longleftrightarrow> s < 0.4) \<and>
   (EvidenceSnippets_tier sn = Some High \<longleftrightarrow> similarity sn \<ge> 0.7) \<and>
   (EvidenceSnippets_tier sn = Some Medium \<longleftrightarrow> 0.4 \<le> similarity sn \<and> similarity sn < 0.7) \<and>
   (EvidenceSnippets_tier sn = Some Low \<longleftrightarrow> similarity sn < 0.4) \<and>
   EvidenceSnippets_tier sn = ScoreBar_tier (similarity sn)"
  unfolding ScoreBar_tier_cases EvidenceSnippets_tier_cases by auto

theorem score_tier_bands_witness:
  "ScoreBar_tier 0.7 = Some High \<and> ScoreBar_tier 0.69 = Some Medium \<and>
   ScoreBar_tier 0.4 = Some Medium \<and> ScoreBar_tier 0.39 = Some Low"
  using score_tier_bands [of "0.7"] score_tier_bands [of "0.69"]
    score_tier_bands [of "0.4"] score_tier_bands [of "0.39"]
  by simp

text \<open>The percentage shown next to a bar is rounded, its colour is not: a score of
  0.699 is shown as 70 per cent on a bar of the medium colour.\<close>

lemma ScoreBar_rounding: "formatPercentage 0.699 = 70 \<and> ScoreBar_tier 0.699 = Some Medium"
  by (simp add: formatPercentage_def ScoreBar_tier_cases)

subsection \<open>Stance rendering\<close>

text \<open>
  C7. The stance of an assessment is one of the three strings of the union type, and the
  rendering is defined for every string: \<open>supports\<close> gets the green classes and the
  check icon, \<open>contradicts\<close> the red classes and the cross icon, every other string
  (\<open>neutral\<close> among them) the gray classes and the minus icon.
\<close>

theorem stance_rendering_total:
  "stance_value (stance a) \<in> {''supports'', ''contradicts'', ''neutral''} \<and>
   getStanceColor ''supports'' = ''text-green-700 bg-green-50 border-green-200'' \<and>
   getStanceIcon ''supports'' = (CheckCircleIcon, ''h-6 w-6 text-green-500'') \<and>
   getStanceColor ''contradicts'' = ''text-red-700 bg-red-50 border-red-200'' \<and>
   getStanceIcon ''contradicts'' = (XCircleIcon, ''h-6 w-6 text-red-500'') \<and>
   (s \<noteq> ''supports'' \<and> s \<noteq> ''contradicts'' \<longrightarrow>
      getStanceColor s = ''text-gray-700 bg-gray-50 border-gray-200'' \<and>
      getStanceIcon s = (MinusCircleIcon, ''h-6 w-6 text-gray-500'')) \<and>
   getStanceColor ''neutral'' = ''text-gray-700 bg-gray-50 border-gray-200'' \<and>
   getStanceIcon ''neutral'' = (MinusCircleIcon, ''h-6 w-6 text-gray-500'') \<and>
   getStanceColor s \<in> {''text-green-700 bg-green-50 border-green-200'',
      ''text-red-700 bg-red-50 border-red-200'', ''text-gray-700 bg-gray-50 border-gray-200''} \<and>
   fst (getStanceIcon s) \<in> {CheckCircleIcon, XCircleIcon, MinusCircleIcon}"
  by (cases "stance a") (simp_all add: getStanceColor_def getStanceIcon_def)

theorem stance_rendering_total_witness:
  "''unknown'' \<noteq> ''supports'' \<and> ''unknown'' \<noteq> ''contradicts'' \<and>
   getStanceColor ''unknown'' = ''text-gray-700 bg-gray-50 border-gray-200'' \<and>
   getStanceIcon ''unknown'' = (MinusCircleIcon, ''h-6 w-6 text-gray-500'')"
proof -
  have h: "''unknown'' \<noteq> ''supports'' \<and> ''unknown'' \<noteq> ''contradicts''" by simp
  from stance_rendering_total [of sample_assessment "''unknown''"] h show ?thesis by blast
qed

subsection \<open>Feedback\<close>

lemma handleFeedback_score:
  "Request (PostAssessmentFeedback i sc c) \<in> set (fst (handleFeedback result st score)) \<Longrightarrow> sc = score"
  by (auto simp: handleFeedback_def submitFeedback_def split: option.splits outcome.splits)

lemma page_step_feedback_score:
  assumes "Request (PostAssessmentFeedback i sc c) \<in> set (fst (page_step st e))"
  shows "sc = 1 \<or> sc = - 1"
proof (cases e)
  case (ShareClicked origin ok)
  with assms show ?thesis
    by (auto simp: handleShare_def Let_def split: option.splits if_splits)
next
  case (HelpfulClicked r)
  with assms show ?thesis using handleFeedback_score [of i sc c r st 1]
    by (auto split: if_splits)
next
  case (NotHelpfulClicked r)
  with assms show ?thesis using handleFeedback_score [of i sc c r st "- 1"]
    by (auto split: if_splits)
next
  case (CommentChanged x)
  with assms show ?thesis by (auto split: if_splits)
qed

text \<open>
  C2. Whatever is clicked on the assessment page, in whatever order and whatever the
  server answers, every feedback request that is sent carries the score 1 or -1.
\<close>

theorem feedback_score_sent:
  "Request (PostAssessmentFeedback i sc c) \<in> set (page_run st es) \<Longrightarrow> sc = 1 \<or> sc = - 1"
proof (induction es arbitrary: st)
  case Nil
  then show ?case by simp
next
  case (Cons e es)
  then show ?case using page_step_feedback_score [of i sc c st e] by auto
qed

theorem feedback_score_sent_witness:
  "Request (PostAssessmentFeedback 7 (- 1) (Some ''too vague'')) \<in>
     set (page_run sample_page [CommentChanged ''too vague'', NotHelpfulClicked (Rejected None),
            NotHelpfulClicked (Resolved ()), HelpfulClicked (Resolved ())]) \<and>
   ((- 1 :: int) = 1 \<or> (- 1 :: int) = - 1)"
proof -
  have h: "Request (PostAssessmentFeedback 7 (- 1) (Some ''too vague'')) \<in>
     set (page_run sample_page [CommentChanged ''too vague'', NotHelpfulClicked (Rejected None),
            NotHelpfulClicked (Resolved ()), HelpfulClicked (Resolved ())])"
    by (simp add: sample_page_def sample_assessment_def feedbackEnabled_def pageShown_def handleFeedback_def
        submitFeedback_def commentOrUndefined_def errorMessage_def)
  from h feedback_score_sent [OF h] show ?thesis by simp
qed

subsection \<open>Sharing\<close>

text \<open>
  C10. When the loaded assessment has no share id, \<open>handleShare\<close> does nothing, and a
  click on the Share button leaves the page as it was: nothing is written to the
  clipboard, no toast is shown, no request is sent.
\<close>

theorem share_without_share_id:
  assumes "assessment st = Some a" and "share_id a = None"
  shows "handleShare origin ok st = [] \<and> page_step st (ShareClicked origin ok) = ([], st)"
  using assms by (simp add: handleShare_def)

theorem share_without_share_id_witness:
  "assessment sample_page = Some sample_assessment \<and> share_id sample_assessment = None \<and>
   handleShare ''https://veritium.example'' True sample_page = [] \<and>
   page_step sample_page (ShareClicked ''https://veritium.example'' True) = ([], sample_page)"
proof -
  have h1: "assessment sample_page = Some sample_assessment" by (simp add: sample_page_def)
  have h2: "share_id sample_assessment = None" by (simp add: sample_assessment_def)
  from share_without_share_id [OF h1 h2, of "''https://veritium.example''" True] h1 h2
  show ?thesis by simp
qed

subsection \<open>Submitting a claim\<close>

lemma trim_empty_iff: "trim s = [] \<longleftrightarrow> (\<forall>c\<in>set s. isWhiteSpace c)"
proof (cases "dropWhile isWhiteSpace s")
  case Nil
  then have "\<forall>c\<in>set s. isWhiteSpace c" by (simp add: dropWhile_eq_Nil_conv)
  moreover have "trim s = []" unfolding trim_def Nil by simp
  ultimately show ?thesis by simp
next
  case (Cons x xs)
  then have "\<not> isWhiteSpace x" using hd_dropWhile [of isWhiteSpace s] by auto
  moreover have "x \<in> set (dropWhile isWhiteSpace s)" using Cons by simp
  ultimately have "trim s \<noteq> []"
    by (auto simp: trim_def dropWhile_eq_Nil_conv)
  moreover have "\<not> (\<forall>c\<in>set s. isWhiteSpace c)"
    using Cons by (auto simp: dropWhile_eq_Nil_conv [symmetric])
  ultimately show ?thesis by simp
qed

text \<open>
  C3. When the trimmed claim is empty, submitting the form calls nothing and sends
  nothing, and the Analyze button is disabled. Otherwise \<open>onSubmit\<close> gets the trimmed
  claim, every request that is sent is the creation of an assessment with the trimmed
  claim as its \<open>user_claim\<close>, and with a document loaded that request is sent; an
  input that trimming changes is never sent as it was typed.
\<close>

theorem claim_submit_trimmed:
  "(trim claim = [] \<longrightarrow>
      ClaimInput_handleSubmit onSubmit claim = [] \<and>
      submitClaimForm result document claim = [] \<and>
      ClaimInput_disabled loading claim) \<and>
   (trim claim \<noteq> [] \<longrightarrow>
      ClaimInput_handleSubmit onSubmit claim = onSubmit (trim claim) \<and>
      (\<forall>r. Request r \<in> set (submitClaimForm result document claim) \<longrightarrow>
         (\<exists>d. document = Some d \<and> r = PostAssessments (doc_id d) (trim claim))) \<and>
      (\<forall>d. document = Some d \<longrightarrow>
         Request (PostAssessments (doc_id d) (trim claim)) \<in>
           set (submitClaimForm result document claim)) \<and>
      (\<forall>i. claim \<noteq> trim claim \<longrightarrow>
         Request (PostAssessments i claim) \<notin> set (submitClaimForm result document claim)))"
  by (auto simp: ClaimInput_handleSubmit_def submitClaimForm_def ClaimInput_disabled_def
      handleClaimSubmit_def createAssessment_def handleError_def
      split: option.splits outcome.splits)

lemma trim_sample: "trim ''  Exercise reduces heart rate '' = ''Exercise reduces heart rate''"
  by (simp add: trim_def isWhiteSpace_def isLineTerminator_def)

lemma trim_blank: "trim [CHR 0x20, CHR 0x09, CHR 0x0A] = []"
  by (simp add: trim_def isWhiteSpace_def isLineTerminator_def)

theorem claim_submit_trimmed_witness:
  "trim [CHR 0x20, CHR 0x09, CHR 0x0A] = [] \<and>
   submitClaimForm (Rejected None) (Some sample_document) [CHR 0x20, CHR 0x09, CHR 0x0A] = [] \<and>
   trim ''  Exercise reduces heart rate '' \<noteq> [] \<and>
   Request (PostAssessments 3 ''Exercise reduces heart rate'') \<in>
     set (submitClaimForm (Rejected None) (Some sample_document)
            ''  Exercise reduces heart rate '')"
proof -
  have d: "doc_id sample_document = 3" by (simp add: sample_document_def)
  from claim_submit_trimmed
    [of "[CHR 0x20, CHR 0x09, CHR 0x0A]" "handleClaimSubmit (Rejected None) (Some sample_document)"
      "Rejected None" "Some sample_document" True]
    claim_submit_trimmed
    [of "''  Exercise reduces heart rate ''" "handleClaimSubmit (Rejected None) (Some sample_document)"
      "Rejected None" "Some sample_document" False]
    trim_blank trim_sample d
  show ?thesis by simp
qed

subsection \<open>Dropping a file\<close>

text \<open>
  C8. For the file that \<open>onDrop\<close> handles, an upload request is sent only for that
  file, and only when its MIME type is one of the two allowed types and its size is at
  most 52428800 bytes; for any other file \<open>onError\<close> is called with a message and
  nothing else happens. A file that passes both checks is uploaded, and without a file
  \<open>onDrop\<close> does nothing.
\<close>

theorem onDrop_validation:
  "(\<forall>r. Request r \<in> set (onDrop result (file # rest)) \<longrightarrow>
      r = PostDocumentsUploadFile file \<and>
      (file_type file = ''application/pdf'' \<or>
       file_type file = ''application/vnd.openxmlformats-officedocument.wordprocessingml.document'') \<and>
      file_size file \<le> 52428800) \<and>
   (\<not> ((file_type file = ''application/pdf'' \<or>
        file_type file = ''application/vnd.openxmlformats-officedocument.wordprocessingml.document'') \<and>
       file_size file \<le> 52428800) \<longrightarrow>
      (\<exists>msg. msg \<noteq> [] \<and> onDrop result (file # rest) = [OnError msg])) \<and>
   ((file_type file = ''application/pdf'' \<or>
     file_type file = ''application/vnd.openxmlformats-officedocument.wordprocessingml.document'') \<and>
    file_size file \<le> 52428800 \<longrightarrow>
      Request (PostDocumentsUploadFile file) \<in> set (onDrop result (file # rest))) \<and>
   onDrop result [] = []"
  by (auto simp: onDrop_def allowedTypes_def uploadFile_def split: outcome.splits)

theorem onDrop_validation_witness:
  "Request (PostDocumentsUploadFile sample_file) \<in> set (onDrop (Rejected None) [sample_file]) \<and>
   file_type sample_file = ''application/pdf'' \<and> file_size sample_file \<le> 52428800 \<and>
   \<not> file_size (sample_file\<lparr>file_size := 52428801\<rparr>) \<le> 52428800 \<and>
   (\<exists>msg. msg \<noteq> [] \<and>
      onDrop (Rejected None) [sample_file\<lparr>file_size := 52428801\<rparr>] = [OnError msg])"
proof -
  have r: "Request (PostDocumentsUploadFile sample_file) \<in> set (onDrop (Rejected None) [sample_file])"
    by (simp add: onDrop_def sample_file_def allowedTypes_def uploadFile_def)
  have b: "\<not> file_size (sample_file\<lparr>file_size := 52428801\<rparr>) \<le> 52428800" by simp
  have t: "file_type sample_file = ''application/pdf''" "file_size sample_file \<le> 52428800"
    by (simp_all add: sample_file_def)
  from onDrop_validation [of "Rejected None" sample_file "[]"] r
    onDrop_validation [of "Rejected None" "sample_file\<lparr>file_size := 52428801\<rparr>" "[]"] b t
  show ?thesis by blast
qed

subsection \<open>Submitting a DOI\<close>

text \<open>What the two regular expressions match, in plain terms.\<close>

lemma rx_Str_iff: "r \<in> set (rx_match (Str p) s) \<longleftrightarrow> s = p @ r"
proof
  assume "r \<in> set (rx_match (Str p) s)"
  then have "take (length p) s = p" and "r = drop (length p) s"
    by (auto split: if_splits)
  then show "s = p @ r" using append_take_drop_id [of "length p" s] by simp
next
  assume "s = p @ r"
  then show "r \<in> set (rx_match (Str p) s)" by simp
qed

lemma rx_Opt_iff: "r \<in> set (rx_match (Opt x) s) \<longleftrightarrow> r \<in> set (rx_match x s) \<or> r = s"
  by auto

lemma rx_Seq_iff:
  "r \<in> set (rx_match (Seq x y) s) \<longleftrightarrow> (\<exists>m\<in>set (rx_match x s). r \<in> set (rx_match y m))"
  by simp

lemma rx_DotPlus_set:
  "set (rx_match DotPlus s) =
     (\<lambda>n. drop n s) ` {1 ..< Suc (length (takeWhile (\<lambda>c. \<not> isLineTerminator c) s))}"
  by (simp only: rx_match.simps set_map set_rev set_upt)

lemma rx_DotPlus_iff:
  "r \<in> set (rx_match DotPlus s) \<longleftrightarrow>
     (\<exists>a. a \<noteq> [] \<and> (\<forall>c\<in>set a. \<not> isLineTerminator c) \<and> s = a @ r)"
proof
  let ?P = "\<lambda>c. \<not> isLineTerminator c"
  assume "r \<in> set (rx_match DotPlus s)"
  then obtain k where k: "1 \<le> k" "k \<le> length (takeWhile ?P s)" "r = drop k s"
    unfolding rx_DotPlus_set by auto
  have "take k s = take k (takeWhile ?P s @ dropWhile ?P s)" by simp
  also have "\<dots> = take k (takeWhile ?P s)" using k(2) by (simp del: takeWhile_dropWhile_id)
  finally have "set (take k s) \<subseteq> set (takeWhile ?P s)" by (simp add: set_take_subset)
  then have "\<forall>c\<in>set (take k s). ?P c" by (auto dest: set_takeWhileD)
  moreover have "take k s \<noteq> []" using k length_takeWhile_le [of ?P s] by auto
  moreover have "s = take k s @ r" using k(3) by simp
  ultimately show "\<exists>a. a \<noteq> [] \<and> (\<forall>c\<in>set a. ?P c) \<and> s = a @ r" by blast
next
  let ?P = "\<lambda>c. \<not> isLineTerminator c"
  assume "\<exists>a. a \<noteq> [] \<and> (\<forall>c\<in>set a. ?P c) \<and> s = a @ r"
  then obtain a where a: "a \<noteq> []" "\<forall>c\<in>set a. ?P c" "s = a @ r" by blast
  have "takeWhile ?P s = a @ takeWhile ?P r" using a by simp
  then have "length a \<le> length (takeWhile ?P s)" by simp
  moreover have "1 \<le> length a" using a(1) by (cases a) auto
  ultimately have "length a \<in> {1 ..< Suc (length (takeWhile ?P s))}" by simp
  moreover have "r = drop (length a) s" using a(3) by simp
  ultimately show "r \<in> set (rx_match DotPlus s)"
    unfolding rx_DotPlus_set by (rule image_eqI [rotated])
qed

lemma scheme_iff:
  "m \<in> set (rx_match (Seq (Str ''http'') (Seq (Opt (Str ''s'')) (Str ''://''))) s) \<longleftrightarrow>
     s = ''https://'' @ m \<or> s = ''http://'' @ m"
  unfolding rx_Seq_iff rx_Opt_iff rx_Str_iff Bex_def by auto

lemma host_iff:
  "r \<in> set (rx_match (Seq (Opt (Str ''dx.'')) (Str ''doi.org/'')) m) \<longleftrightarrow>
     m = ''dx.doi.org/'' @ r \<or> m = ''doi.org/'' @ r"
  unfolding rx_Seq_iff rx_Opt_iff rx_Str_iff Bex_def by auto

lemma doiPrefix_iff:
  "r \<in> set (rx_match doiPrefix s) \<longleftrightarrow> (\<exists>p\<in>set doiPrefixes. s = p @ r)"
proof -
  have "r \<in> set (rx_match doiPrefix s) \<longleftrightarrow>
     (\<exists>m. (s = ''https://'' @ m \<or> s = ''http://'' @ m \<or> m = s) \<and>
          (m = ''dx.doi.org/'' @ r \<or> m = ''doi.org/'' @ r))"
    unfolding doiPrefix_def rx_Seq_iff [of r "Opt _"] rx_Opt_iff scheme_iff host_iff Bex_def
    by blast
  also have "\<dots> \<longleftrightarrow> (\<exists>p\<in>set doiPrefixes. s = p @ r)"
    unfolding doiPrefixes_def by auto
  finally show ?thesis .
qed

lemma rx_test_iff: "rx_test r s \<longleftrightarrow> (\<exists>m. m \<in> set (rx_match r s))"
  by (cases "rx_match r s") (auto simp: rx_test_def)

lemma doiPattern_iff:
  "rx_test doiPattern x \<longleftrightarrow>
     (\<exists>a b r. x = ''10.'' @ a @ ''/'' @ b @ r \<and>
        a \<noteq> [] \<and> (\<forall>c\<in>set a. \<not> isLineTerminator c) \<and>
        b \<noteq> [] \<and> (\<forall>c\<in>set b. \<not> isLineTerminator c))"
  unfolding rx_test_iff doiPattern_def rx_Seq_iff rx_Str_iff rx_DotPlus_iff Bex_def
  by blast

lemma cleanDoi_cases:
  "(\<exists>p\<in>set doiPrefixes. d = p @ cleanDoi d) \<or>
   (cleanDoi d = d \<and> (\<forall>p\<in>set doiPrefixes. \<forall>r. d \<noteq> p @ r))"
proof (cases "rx_match doiPrefix d")
  case Nil
  then have "\<forall>r. r \<notin> set (rx_match doiPrefix d)" by simp
  then have "\<forall>p\<in>set doiPrefixes. \<forall>r. d \<noteq> p @ r"
    unfolding doiPrefix_iff by blast
  moreover have "cleanDoi d = d"
    using Nil by (simp add: cleanDoi_def rx_replace_empty_def)
  ultimately show ?thesis by blast
next
  case (Cons r rs)
  then have "r \<in> set (rx_match doiPrefix d)" by simp
  then have "\<exists>p\<in>set doiPrefixes. d = p @ r"
    unfolding doiPrefix_iff .
  moreover have "cleanDoi d = r"
    using Cons by (simp add: cleanDoi_def rx_replace_empty_def)
  ultimately show ?thesis by simp
qed

lemma doiPrefixes_hd:
  assumes "p \<in> set doiPrefixes"
  shows "\<exists>t. p = CHR ''h'' # t \<or> p = CHR ''d'' # t"
  using assms unfolding doiPrefixes_def by auto

lemma blank_not_doi:
  assumes "trim d = []"
  shows "\<not> rx_test doiPattern (cleanDoi d)"
proof
  assume t: "rx_test doiPattern (cleanDoi d)"
  from assms have ws: "\<forall>c\<in>set d. isWhiteSpace c" by (simp add: trim_empty_iff)
  have "\<not> isWhiteSpace CHR ''h''" "\<not> isWhiteSpace CHR ''d''" "\<not> isWhiteSpace CHR ''1''"
    by (simp_all add: isWhiteSpace_def isLineTerminator_def)
  with ws have nohd: "CHR ''h'' \<notin> set d" "CHR ''d'' \<notin> set d" "CHR ''1'' \<notin> set d"
    by blast+
  have "cleanDoi d = d"
  proof (rule disjE [OF cleanDoi_cases [of d]])
    assume "\<exists>p\<in>set doiPrefixes. d = p @ cleanDoi d"
    then obtain p where p: "p \<in> set doiPrefixes" "d = p @ cleanDoi d" by blast
    from doiPrefixes_hd [OF p(1)] obtain t where "p = CHR ''h'' # t \<or> p = CHR ''d'' # t"
      by blast
    then have "CHR ''h'' \<in> set p \<or> CHR ''d'' \<in> set p" by auto
    then have "CHR ''h'' \<in> set d \<or> CHR ''d'' \<in> set d"
      using p(2) by (metis Un_iff set_append)
    with nohd show ?thesis by blast
  next
    assume "cleanDoi d = d \<and> (\<forall>p\<in>set doiPrefixes. \<forall>r. d \<noteq> p @ r)"
    then show ?thesis by blast
  qed
  with t have "rx_test doiPattern d" by simp
  then obtain a b r where "d = ''10.'' @ a @ ''/'' @ b @ r"
    unfolding doiPattern_iff by blast
  then have "CHR ''1'' \<in> set d" by simp
  with nohd show False by blast
qed

text \<open>
  C9. A request is sent exactly when the input with the \<open>doi.org\<close> prefix removed
  matches the DOI pattern; the request then carries the input without the prefix, and
  otherwise \<open>onError\<close> is called with a message and nothing else happens. Removing the
  prefix takes one of the six texts of \<open>doiPrefixes\<close> from the start of the input
  and leaves an input that starts with none of them as it is; the pattern matches a text
  that starts with \<open>10.\<close>, then has at least one character, a slash and at least one
  more character, none of them a line terminator.
\<close>

theorem doi_submit_validation:
  "((\<exists>r. Request r \<in> set (DoiInput_handleSubmit result d)) \<longleftrightarrow>
      rx_test doiPattern (cleanDoi d)) \<and>
   (rx_test doiPattern (cleanDoi d) \<longrightarrow>
      (\<forall>r. Request r \<in> set (DoiInput_handleSubmit result d) \<longleftrightarrow>
         r = PostDocumentsUploadDoi (cleanDoi d))) \<and>
   (\<not> rx_test doiPattern (cleanDoi d) \<longrightarrow>
      (\<exists>msg. msg \<noteq> [] \<and> DoiInput_handleSubmit result d = [OnError msg])) \<and>
   ((\<exists>p\<in>set doiPrefixes. d = p @ cleanDoi d) \<or>
    (cleanDoi d = d \<and> (\<forall>p\<in>set doiPrefixes. \<forall>r. d \<noteq> p @ r))) \<and>
   (rx_test doiPattern (cleanDoi d) \<longleftrightarrow>
      (\<exists>a b r. cleanDoi d = ''10.'' @ a @ ''/'' @ b @ r \<and>
         a \<noteq> [] \<and> (\<forall>c\<in>set a. \<not> isLineTerminator c) \<and>
         b \<noteq> [] \<and> (\<forall>c\<in>set b. \<not> isLineTerminator c)))"
proof -
  have main: "((\<exists>r. Request r \<in> set (DoiInput_handleSubmit result d)) \<longleftrightarrow>
      rx_test doiPattern (cleanDoi d)) \<and>
   (rx_test doiPattern (cleanDoi d) \<longrightarrow>
      (\<forall>r. Request r \<in> set (DoiInput_handleSubmit result d) \<longleftrightarrow>
         r = PostDocumentsUploadDoi (cleanDoi d))) \<and>
   (\<not> rx_test doiPattern (cleanDoi d) \<longrightarrow>
      (\<exists>msg. msg \<noteq> [] \<and> DoiInput_handleSubmit result d = [OnError msg]))"
  proof (cases "rx_test doiPattern (cleanDoi d)")
    case True
    then have "trim d \<noteq> []" using blank_not_doi [of d] by blast
    with True show ?thesis
      by (auto simp: DoiInput_handleSubmit_def uploadFromDoi_def split: outcome.splits)
  next
    case False
    then show ?thesis
      by (auto simp: DoiInput_handleSubmit_def)
  qed
  from main cleanDoi_cases [of d] doiPattern_iff [of "cleanDoi d"] show ?thesis
    by (intro conjI) (elim conjE, assumption)+
qed

lemma cleanDoi_sample: "cleanDoi ''https://doi.org/10.1000/123456'' = ''10.1000/123456''"
  by (simp add: cleanDoi_def rx_replace_empty_def doiPrefix_def)

lemma doiPattern_sample: "rx_test doiPattern ''10.1000/123456''"
  by (simp add: rx_test_def doiPattern_def isLineTerminator_def)

lemma cleanDoi_other: "cleanDoi ''doi.org/11.1000/123456'' = ''11.1000/123456''"
  by (simp add: cleanDoi_def rx_replace_empty_def doiPrefix_def)

lemma doiPattern_other: "\<not> rx_test doiPattern ''11.1000/123456''"
  by (simp add: rx_test_def doiPattern_def)

theorem doi_submit_validation_witness:
  "rx_test doiPattern (cleanDoi ''https://doi.org/10.1000/123456'') \<and>
   Request (PostDocumentsUploadDoi ''10.1000/123456'') \<in>
     set (DoiInput_handleSubmit (Rejected None) ''https://doi.org/10.1000/123456'') \<and>
   \<not> rx_test doiPattern (cleanDoi ''doi.org/11.1000/123456'') \<and>
   (\<exists>msg. msg \<noteq> [] \<and>
      DoiInput_handleSubmit (Rejected None) ''doi.org/11.1000/123456'' = [OnError msg])"
proof -
  have t: "rx_test doiPattern (cleanDoi ''https://doi.org/10.1000/123456'')"
    unfolding cleanDoi_sample by (rule doiPattern_sample)
  have f: "\<not> rx_test doiPattern (cleanDoi ''doi.org/11.1000/123456'')"
    unfolding cleanDoi_other by (rule doiPattern_other)
  from doi_submit_validation [of "Rejected None" "''https://doi.org/10.1000/123456''"] t
    doi_submit_validation [of "Rejected None" "''doi.org/11.1000/123456''"] f
    cleanDoi_sample
  show ?thesis by simp
qed

subsection \<open>Share identifiers\<close>

text \<open>
  C4. For a stored assessment \<open>ensureShareId\<close> returns a share id, and a second call
  returns the same id and leaves the store as the first call left it; an assessment that
  has a share id keeps it, and one that has none gets the generated one.
\<close>

theorem ensureShareId_idempotent:
  assumes "store assessmentId = Some a"
  shows "\<exists>sid store'.
           ensureShareId generate store assessmentId = Inr (sid, store') \<and>
           ensureShareId generate store' assessmentId = Inr (sid, store') \<and>
           (\<forall>x. share_id a = Some x \<longrightarrow> sid = x \<and> store' = store) \<and>
           (share_id a = None \<longrightarrow> sid = generate store assessmentId)"
  using assms by (cases "share_id a") (simp_all add: ensureShareId_def Let_def)

theorem ensureShareId_idempotent_witness:
  "[7 \<mapsto> sample_assessment] 7 = Some sample_assessment \<and>
   (\<exists>sid store'.
      ensureShareId (\<lambda>_ _. ''s-0001'') [7 \<mapsto> sample_assessment] 7 = Inr (sid, store') \<and>
      ensureShareId (\<lambda>_ _. ''s-0001'') store' 7 = Inr (sid, store') \<and> sid = ''s-0001'')"
proof -
  have h: "[7 \<mapsto> sample_assessment] (7::nat) = Some sample_assessment" by simp
  have n: "share_id sample_assessment = None" by (simp add: sample_assessment_def)
  from ensureShareId_idempotent
    [of "[7 \<mapsto> sample_assessment]" 7 sample_assessment "\<lambda>_ _. ''s-0001''"] n h
  show ?thesis by auto
qed

subsection \<open>Confidence fusion\<close>

lemma clamp01_bounds: "0 \<le> clamp01 x \<and> clamp01 x \<le> 1"
  by (simp add: clamp01_def)

lemma weighted_sum_unit:
  assumes "0 \<le> w_similarity w" "0 \<le> w_entailment w" "0 \<le> w_quality w"
    "0 \<le> w_evidence_strength w"
    "w_similarity w + w_entailment w + w_quality w + w_evidence_strength w = 1"
    "0 \<le> s" "s \<le> 1" "0 \<le> e" "e \<le> 1" "0 \<le> q" "q \<le> 1" "0 \<le> v" "v \<le> 1"
  shows "0 \<le> weighted_sum w s e q v \<and> weighted_sum w s e q v \<le> 1"
proof -
  have "w_similarity w * s \<le> w_similarity w" "w_entailment w * e \<le> w_entailment w"
    "w_quality w * q \<le> w_quality w" "w_evidence_strength w * v \<le> w_evidence_strength w"
    using assms by (auto intro: mult_left_le)
  moreover have "0 \<le> w_similarity w * s" "0 \<le> w_entailment w * e"
    "0 \<le> w_quality w * q" "0 \<le> w_evidence_strength w * v"
    using assms by auto
  ultimately show ?thesis using assms(5) by (simp add: weighted_sum_def)
qed

text \<open>
  C5. The fused confidence lies between 0 and 1 and is the weighted sum of the four
  scores, clamped to that interval; the default weights are 0.25, 0.35, 0.20 and 0.20
  and sum to 1. With weights that are not negative and sum to 1 and scores between 0 and
  1, the clamp changes nothing.
\<close>

theorem confidence_bound:
  "0 \<le> confidence_score (fuse w a) \<and> confidence_score (fuse w a) \<le> 1 \<and>
   confidence_score (fuse w a) =
     max 0 (min 1 (w_similarity w * similarity_score a + w_entailment w * entailment_score a +
                   w_quality w * method_quality_score a +
                   w_evidence_strength w * evidence_strength_score a)) \<and>
   w_similarity default_weights = 0.25 \<and> w_entailment default_weights = 0.35 \<and>
   w_quality default_weights = 0.20 \<and> w_evidence_strength default_weights = 0.20 \<and>
   w_similarity default_weights + w_entailment default_weights + w_quality default_weights +
     w_evidence_strength default_weights = 1 \<and>
   (0 \<le> w_similarity w \<and> 0 \<le> w_entailment w \<and> 0 \<le> w_quality w \<and>
    0 \<le> w_evidence_strength w \<and>
    w_similarity w + w_entailment w + w_quality w + w_evidence_strength w = 1 \<and>
    0 \<le> similarity_score a \<and> similarity_score a \<le> 1 \<and>
    0 \<le> entailment_score a \<and> entailment_score a \<le> 1 \<and>
    0 \<le> method_quality_score a \<and> method_quality_score a \<le> 1 \<and>
    0 \<le> evidence_strength_score a \<and> evidence_strength_score a \<le> 1 \<longrightarrow>
    confidence_score (fuse w a) =
      w_similarity w * similarity_score a + w_entailment w * entailment_score a +
      w_quality w * method_quality_score a +
      w_evidence_strength w * evidence_strength_score a)"
proof -
  have c: "confidence_score (fuse w a) =
     clamp01 (weighted_sum w (similarity_score a) (entailment_score a)
       (method_quality_score a) (evidence_strength_score a))"
    by (simp add: fuse_def confidence_fusion_def)
  have b: "0 \<le> confidence_score (fuse w a) \<and> confidence_score (fuse w a) \<le> 1"
    unfolding c by (rule clamp01_bounds)
  have d: "w_similarity default_weights = 0.25 \<and> w_entailment default_weights = 0.35 \<and>
   w_quality default_weights = 0.20 \<and> w_evidence_strength default_weights = 0.20 \<and>
   w_similarity default_weights + w_entailment default_weights + w_quality default_weights +
     w_evidence_strength default_weights = 1"
    by (simp add: default_weights_def)
  have e: "confidence_score (fuse w a) =
     max 0 (min 1 (w_similarity w * similarity_score a + w_entailment w * entailment_score a +
                   w_quality w * method_quality_score a +
                   w_evidence_strength w * evidence_strength_score a))"
    unfolding c by (simp add: clamp01_def weighted_sum_def)
  have f: "confidence_score (fuse w a) =
      w_similarity w * similarity_score a + w_entailment w * entailment_score a +
      w_quality w * method_quality_score a +
      w_evidence_strength w * evidence_strength_score a"
    if "0 \<le> w_similarity w \<and> 0 \<le> w_entailment w \<and> 0 \<le> w_quality w \<and>
    0 \<le> w_evidence_strength w \<and>
    w_similarity w + w_entailment w + w_quality w + w_evidence_strength w = 1 \<and>
    0 \<le> similarity_score a \<and> similarity_score a \<le> 1 \<and>
    0 \<le> entailment_score a \<and> entailment_score a \<le> 1 \<and>
    0 \<le> method_quality_score a \<and> method_quality_score a \<le> 1 \<and>
    0 \<le> evidence_strength_score a \<and> evidence_strength_score a \<le> 1"
  proof -
    from that have "0 \<le> weighted_sum w (similarity_score a) (entailment_score a)
       (method_quality_score a) (evidence_strength_score a) \<and>
       weighted_sum w (similarity_score a) (entailment_score a)
       (method_quality_score a) (evidence_strength_score a) \<le> 1"
      by (intro weighted_sum_unit) simp_all
    then show ?thesis unfolding c by (simp add: clamp01_def weighted_sum_def)
  qed
  from b d e f show ?thesis by blast
qed

theorem confidence_bound_witness:
  "confidence_score (fuse default_weights sample_assessment) = 0.65 \<and>
   0 \<le> confidence_score (fuse default_weights sample_assessment) \<and>
   confidence_score (fuse default_weights sample_assessment) \<le> 1"
proof -
  have "confidence_score (fuse default_weights sample_assessment) =
      w_similarity default_weights * similarity_score sample_assessment +
      w_entailment default_weights * entailment_score sample_assessment +
      w_quality default_weights * method_quality_score sample_assessment +
      w_evidence_strength default_weights * evidence_strength_score sample_assessment"
    using confidence_bound [of default_weights sample_assessment]
    by (simp add: default_weights_def sample_assessment_def)
  then have "confidence_score (fuse default_weights sample_assessment) = 0.65"
    by (simp add: default_weights_def sample_assessment_def)
  then show ?thesis by simp
qed

subsection \<open>Evidence retrieval\<close>

lemma ranks_before_total: "ranks_before x y \<or> ranks_before y x"
  by (auto simp: ranks_before_def)

lemma ranks_before_trans: "ranks_before x y \<Longrightarrow> ranks_before y z \<Longrightarrow> ranks_before x z"
  by (auto simp: ranks_before_def)

lemma set_insert_ranked: "set (insert_ranked x xs) = insert x (set xs)"
  by (induction xs) auto

lemma sorted_insert_ranked:
  "sorted_wrt ranks_before xs \<Longrightarrow> sorted_wrt ranks_before (insert_ranked x xs)"
proof (induction xs)
  case Nil
  then show ?case by simp
next
  case (Cons y ys)
  show ?case
  proof (cases "ranks_before x y")
    case True
    then have "\<forall>z\<in>set ys. ranks_before x z"
      using Cons.prems by (auto intro: ranks_before_trans)
    with True Cons.prems show ?thesis by simp
  next
    case False
    then have "ranks_before y x" using ranks_before_total [of x y] by blast
    with False Cons show ?thesis by (simp add: set_insert_ranked)
  qed
qed

lemma sorted_rank_snippets: "sorted_wrt ranks_before (rank_snippets xs)"
  by (induction xs) (simp_all add: sorted_insert_ranked)

lemma set_rank_snippets: "set (rank_snippets xs) = set xs"
  by (induction xs) (simp_all add: set_insert_ranked)

lemma EvidenceSnippets_rows_order: "map snd (EvidenceSnippets_rows xs) = xs"
  unfolding EvidenceSnippets_rows_def by (rule map_snd_zip) (simp del: upt_Suc)

text \<open>
  C6. The retrieved evidence is sorted by descending similarity, ties by ascending
  sentence index, and holds at most \<open>K\<close> snippets, at most 5 with the default
  \<open>K\<close>; every snippet is a sentence of the document, and the client shows the
  snippets in the order it is given them.
\<close>

theorem evidence_ranked:
  "sorted_wrt ranks_before (retrieveEvidence K m sim ss) \<and>
   length (retrieveEvidence K m sim ss) \<le> K \<and>
   length (retrieveEvidence default_K m sim ss) \<le> 5 \<and>
   set (retrieveEvidence K m sim ss) \<subseteq> toSnippet sim ` set ss \<and>
   map snd (EvidenceSnippets_rows (retrieveEvidence K m sim ss)) = retrieveEvidence K m sim ss"
proof -
  let ?r = "rank_snippets (map (toSnippet sim) ss)"
  have cases: "\<And>k. retrieveEvidence k m sim ss = [] \<or> retrieveEvidence k m sim ss = take k ?r"
    by (simp add: retrieveEvidence_def split: list.splits)
  have s: "sorted_wrt ranks_before (take K ?r)"
    using sorted_rank_snippets by (rule sorted_wrt_take)
  have "set (take K ?r) \<subseteq> set ?r" by (rule set_take_subset)
  then have m: "set (take K ?r) \<subseteq> toSnippet sim ` set ss"
    by (simp add: set_rank_snippets)
  have l: "\<And>k. length (retrieveEvidence k m sim ss) \<le> k"
    using cases by (metis length_take list.size(3) min.cobounded2 zero_le)
  from cases [of K] s m l [of K] l [of default_K] show ?thesis
    by (auto simp: EvidenceSnippets_rows_order default_K_def)
qed

theorem evidence_ranked_witness:
  "map sentence_index (retrieveEvidence default_K default_min_similarity sample_sim sample_sentences)
     = [1, 0, 2] \<and>
   map similarity (retrieveEvidence default_K default_min_similarity sample_sim sample_sentences)
     = [0.9, 0.3, 0.3] \<and>
   sorted_wrt ranks_before
     (retrieveEvidence default_K default_min_similarity sample_sim sample_sentences)"
proof -
  have "map sentence_index
      (retrieveEvidence default_K default_min_similarity sample_sim sample_sentences) = [1, 0, 2]"
    "map similarity
      (retrieveEvidence default_K default_min_similarity sample_sim sample_sentences) = [0.9, 0.3, 0.3]"
    by (simp_all add: retrieveEvidence_def default_K_def default_min_similarity_def sample_sim_def
        sample_sentences_def toSnippet_def ranks_before_def)
  with evidence_ranked [of default_K default_min_similarity sample_sim sample_sentences]
  show ?thesis by simp
qed

end
